theory Spec2Isabelle
  imports Complex_Main
begin

section \<open>Python values and exceptions\<close>

text \<open>
  The four dashboards compute over Python numbers.  A Python \<open>float\<close> is modelled by the
  real number it denotes: rounding, overflow and underflow are outside the model, so every
  statement below is one of exact arithmetic.  What Python does beyond computing a value
  (raising an exception) is a value of the sum type \<open>error + 'a\<close>, with \<open>Inl\<close> the
  exception.
\<close>

text \<open>
  The exception classes the modelled code can raise are \<open>ZeroDivisionError\<close>,
  \<open>IndexError\<close> and \<open>TypeError\<close>; \<open>SolverError\<close> stands for whatever the
  external root finder raises.  \<open>ComplexValue\<close> is not an exception: Python's
  \<open>float ** float\<close> with a negative base and a fractional exponent returns a complex number,
  which leaves the real-valued model; the marker stops the computation there.
  \<open>InvalidDateRangeError\<close>, \<open>InvalidScheduleError\<close> and \<open>DegenerateBondError\<close>
  are the error kinds that the specification names; the source defines no such class and no
  function below produces them.
\<close>

datatype error =
    ZeroDivisionError
  | IndexError
  | TypeError
  | SolverError
  | ComplexValue
  | InvalidDateRangeError
  | InvalidScheduleError
  | DegenerateBondError

definition bindE :: "error + 'a \<Rightarrow> ('a \<Rightarrow> error + 'b) \<Rightarrow> error + 'b" where
  "bindE x f = (case x of Inl e \<Rightarrow> Inl e | Inr v \<Rightarrow> f v)"

text \<open>Python's true division \<open>a / b\<close>: a zero divisor raises.\<close>

definition py_div :: "real \<Rightarrow> real \<Rightarrow> error + real" where
  "py_div a b = (if b = 0 then Inl ZeroDivisionError else Inr (a / b))"

text \<open>
  Python's \<open>b ** e\<close> for a float base: a zero base with a negative exponent raises, a
  negative base is defined on integral exponents only.  An \<open>int\<close> exponent is passed as
  the real number it denotes.
\<close>

definition py_pow :: "real \<Rightarrow> real \<Rightarrow> error + real" where
  "py_pow b e =
     (if 0 < b then Inr (b powr e)
      else if b = 0 then
        (if e < 0 then Inl ZeroDivisionError else if e = 0 then Inr 1 else Inr 0)
      else if of_int \<lfloor>e\<rfloor> = e then Inr (power_int b \<lfloor>e\<rfloor>)
      else Inl ComplexValue)"

text \<open>
  A number that is used as a count keeps its Python type: \<open>range\<close> accepts an \<open>int\<close>
  and raises \<open>TypeError\<close> on a \<open>float\<close>.
\<close>

datatype pynum = PyInt int | PyFloat real

fun num_val :: "pynum \<Rightarrow> real" where
  "num_val (PyInt i) = of_int i"
| "num_val (PyFloat x) = x"

fun py_mul :: "pynum \<Rightarrow> pynum \<Rightarrow> pynum" where
  "py_mul (PyInt a) (PyInt b) = PyInt (a * b)"
| "py_mul a b = PyFloat (num_val a * num_val b)"

text \<open>\<open>range(1, n + 1)\<close> as the list of its elements.\<close>

fun py_range1 :: "pynum \<Rightarrow> error + int list" where
  "py_range1 (PyInt n) = Inr [1..n]"
| "py_range1 (PyFloat x) = Inl TypeError"








section \<open>Compounding dashboard: future value, present value, bond valuation\<close>










section \<open>Valuation dashboard: bond price, yield to maturity, accrued interest\<close>

text \<open>The loop \<open>for t in range(1, periods + 1): price += coupon / ((1 + ytm / comp_per_year) ** t)\<close>.\<close>

fun bond_price_loop :: "real \<Rightarrow> real \<Rightarrow> real \<Rightarrow> int list \<Rightarrow> real \<Rightarrow> error + real" where
  "bond_price_loop coupon ytm comp_per_year [] price = Inr price"
| "bond_price_loop coupon ytm comp_per_year (t # ts) price =
     bindE (py_div ytm comp_per_year) (\<lambda>q.
     bindE (py_pow (1 + q) (of_int t)) (\<lambda>d.
     bindE (py_div coupon d) (\<lambda>x.
     bond_price_loop coupon ytm comp_per_year ts (price + x))))"

definition bond_price :: "real \<Rightarrow> real \<Rightarrow> real \<Rightarrow> pynum \<Rightarrow> pynum \<Rightarrow> error + real" where
  "bond_price face_value coupon_rate ytm years_to_maturity comp_per_year =
     (let periods = py_mul years_to_maturity comp_per_year in
      bindE (py_div (face_value * coupon_rate) (num_val comp_per_year)) (\<lambda>coupon.
      bindE (py_range1 periods) (\<lambda>ts.
      bindE (bond_price_loop coupon ytm (num_val comp_per_year) ts 0) (\<lambda>price.
      bindE (py_div ytm (num_val comp_per_year)) (\<lambda>q.
      bindE (py_pow (1 + q) (num_val periods)) (\<lambda>d.
      bindE (py_div face_value d) (\<lambda>x.
      Inr (price + x))))))))"






text \<open>
  Dates reach \<open>accrued_interest\<close> parsed from \<open>%Y-%m-%d\<close>, so a date is its day number and
  \<open>(a - b).days\<close> is the difference of the day numbers.
\<close>

type_synonym date = int

definition accrued_interest ::
  "real \<Rightarrow> real \<Rightarrow> date \<Rightarrow> date \<Rightarrow> date \<Rightarrow> real \<Rightarrow> error + real" where
  "accrued_interest face_value coupon_rate settlement_date last_coupon_date next_coupon_date
       comp_per_year =
     (let days_in_period = next_coupon_date - last_coupon_date;
          days_accrued = settlement_date - last_coupon_date in
      bindE (py_div (face_value * coupon_rate) comp_per_year) (\<lambda>coupon_payment.
      bindE (py_div (of_int days_accrued) (of_int days_in_period)) (\<lambda>frac.
      Inr (coupon_payment * frac))))"

section \<open>Analytics dashboard: bond price and convexity\<close>

text \<open>The loop \<open>for t in range(1, n_periods + 1): price += coupon / ((1 + period_rate) ** t)\<close>.\<close>

fun calculate_bond_price_loop :: "real \<Rightarrow> real \<Rightarrow> int list \<Rightarrow> real \<Rightarrow> error + real" where
  "calculate_bond_price_loop coupon period_rate [] price = Inr price"
| "calculate_bond_price_loop coupon period_rate (t # ts) price =
     bindE (py_pow (1 + period_rate) (of_int t)) (\<lambda>d.
     bindE (py_div coupon d) (\<lambda>x.
     calculate_bond_price_loop coupon period_rate ts (price + x)))"

text \<open>The last parameter is optional in the source: \<open>None\<close> is the default \<open>periods_per_year=2\<close>.\<close>

definition calculate_bond_price ::
  "real \<Rightarrow> real \<Rightarrow> real \<Rightarrow> pynum \<Rightarrow> pynum option \<Rightarrow> error + real" where
  "calculate_bond_price face_value coupon_rate ytm years_to_maturity periods_per_year_opt =
     (let periods_per_year = (case periods_per_year_opt of None \<Rightarrow> PyInt 2 | Some p \<Rightarrow> p) in
      bindE (py_div ytm (num_val periods_per_year)) (\<lambda>period_rate.
      let n_periods = py_mul years_to_maturity periods_per_year in
      bindE (py_div (face_value * coupon_rate) (num_val periods_per_year)) (\<lambda>coupon.
      bindE (py_range1 n_periods) (\<lambda>ts.
      bindE (calculate_bond_price_loop coupon period_rate ts 0) (\<lambda>price.
      bindE (py_pow (1 + period_rate) (num_val n_periods)) (\<lambda>d.
      bindE (py_div face_value d) (\<lambda>x.
      Inr (price + x))))))))"



section \<open>Financing dashboard: repo repayment and forward price\<close>

definition calculate_repo_transaction :: "real \<Rightarrow> real \<Rightarrow> real \<Rightarrow> error + real" where
  "calculate_repo_transaction principal_amt repo_rate days =
     (if days \<le> 0 \<or> repo_rate < 0 \<or> principal_amt \<le> 0 then Inr 0
      else bindE (py_div (principal_amt * repo_rate * days) 360) (\<lambda>interest.
           Inr (principal_amt + interest)))"

definition calculate_forward_price ::
  "real \<Rightarrow> real \<Rightarrow> real \<Rightarrow> real \<Rightarrow> real \<Rightarrow> error + real" where
  "calculate_forward_price dirty_price repo_rate days_to_forward coupon days_to_coupon =
     (if days_to_forward \<le> 0 then Inr dirty_price
      else
        bindE (py_div (dirty_price * repo_rate * days_to_forward) 360) (\<lambda>financing_cost.
        bindE (if days_to_coupon < days_to_forward \<and> days_to_coupon > 0
               then bindE (py_div (repo_rate * (days_to_forward - days_to_coupon)) 360)
                      (\<lambda>q. Inr (coupon * (1 + q)))
               else Inr 0) (\<lambda>coupon_fv.
        bindE (py_div (repo_rate * days_to_forward) 360) (\<lambda>q.
        Inr (dirty_price * (1 + q) - coupon_fv)))))"

section \<open>Basic facts\<close>

lemma bindE_Inl [simp]: "bindE (Inl e) f = Inl e"
  by (simp add: bindE_def)

lemma bindE_Inr [simp]: "bindE (Inr v) f = f v"
  by (simp add: bindE_def)

lemma py_div_nonzero [simp]: "b \<noteq> 0 \<Longrightarrow> py_div a b = Inr (a / b)"
  by (simp add: py_div_def)

lemma py_div_zero [simp]: "py_div a 0 = Inl ZeroDivisionError"
  by (simp add: py_div_def)

section \<open>Compounding dashboard: results\<close>

















section \<open>The bond price of the valuation and of the analytics dashboard\<close>

lemma bond_price_loop_eq:
  "m \<noteq> 0 \<Longrightarrow> bond_price_loop c y m ts p = calculate_bond_price_loop c (y / m) ts p"
  by (induction ts arbitrary: p) simp_all

lemma bond_price_eq_calculate:
  "bond_price F c y T m = calculate_bond_price F c y T (Some m)"
proof (cases "num_val m = 0")
  case True
  then show ?thesis by (simp add: bond_price_def calculate_bond_price_def)
next
  case False
  then show ?thesis
    by (simp add: bond_price_def calculate_bond_price_def bond_price_loop_eq Let_def)
qed

text \<open>
  C9.  \<open>bond_price\<close> and \<open>calculate_bond_price\<close> give the same result on the same
  arguments, the same price or the same exception, whatever the arguments are; and
  \<open>calculate_bond_price\<close> called without a frequency is \<open>bond_price\<close> with
  \<open>comp_per_year = 2\<close>.
\<close>

theorem bond_price_agrees_with_calculate_bond_price:
  "bond_price F c y T m = calculate_bond_price F c y T (Some m) \<and>
   calculate_bond_price F c y T None = bond_price F c y T (PyInt 2)"
  by (simp add: bond_price_eq_calculate) (simp add: calculate_bond_price_def)







section \<open>Valuation dashboard: results\<close>



text \<open>
  C4.  \<open>accrued_interest\<close> checks no date ordering.  It raises \<open>ZeroDivisionError\<close> when
  \<open>comp_per_year\<close> is zero or when the two coupon dates coincide, and in every other case
  it returns \<open>coupon_payment * (days_accrued / days_in_period)\<close> with
  \<open>coupon_payment = face_value * coupon_rate / comp_per_year\<close>, also for a settlement date
  before the last coupon date and for a next coupon date before the last one.
\<close>

theorem accrued_interest_cases:
  "accrued_interest F c s l n m =
     (if m = 0 \<or> n = l then Inl ZeroDivisionError
      else Inr (F * c / m * (of_int (s - l) / of_int (n - l))))"
  by (cases "m = 0") (simp_all add: accrued_interest_def Let_def)

text \<open>
  Half-way through a coupon period of 182 days the accrued interest is half of the coupon
  payment \<open>25\<close>; a period of no days raises.
\<close>

theorem accrued_interest_cases_witness:
  "accrued_interest 1000 (5 / 100) 91 0 182 2 = Inr (25 / 2) \<and>
   accrued_interest 1000 (5 / 100) 91 0 0 2 = Inl ZeroDivisionError"
  using accrued_interest_cases [of 1000 "5 / 100" 91 0 182 2]
    accrued_interest_cases [of 1000 "5 / 100" 91 0 0 2]
  by simp

text \<open>
  A settlement on day \<open>5\<close>, before the last coupon date on day \<open>10\<close> (the next one on day
  \<open>20\<close>), is not rejected: the call returns the negative amount \<open>25 * (-5 / 10)\<close>.
\<close>

theorem accrued_interest_early_settlement_counterexample:
  "accrued_interest 1000 (5 / 100) 5 10 20 2 = Inr (- (25 / 2))"
  by (simp add: accrued_interest_def Let_def)

section \<open>Analytics dashboard: results\<close>





section \<open>Financing dashboard: results\<close>

text \<open>
  C3.  The forward price is the dirty price itself when \<open>days_to_forward \<le> 0\<close>.
  Otherwise it is \<open>dirty_price * (1 + repo_rate * days_to_forward / 360)\<close>, less the
  forward-valued coupon \<open>coupon * (1 + repo_rate * (days_to_forward - days_to_coupon) / 360)\<close>
  exactly when \<open>0 < days_to_coupon < days_to_forward\<close>, and less nothing otherwise.  The
  call never raises.
\<close>

theorem forward_price_cases:
  "calculate_forward_price dirty_price repo_rate days_to_forward coupon days_to_coupon =
     Inr (if days_to_forward \<le> 0 then dirty_price
          else dirty_price * (1 + repo_rate * days_to_forward / 360) -
               (if 0 < days_to_coupon \<and> days_to_coupon < days_to_forward
                then coupon * (1 + repo_rate * (days_to_forward - days_to_coupon) / 360)
                else 0))"
  by (simp add: calculate_forward_price_def)

text \<open>
  C7.  For a positive principal, a positive number of days and a non-negative repo rate the
  repayment is \<open>principal_amt * (1 + repo_rate * days / 360)\<close>; for a non-positive principal,
  non-positive days or a negative rate the call returns 0 and raises nothing.
\<close>

theorem repo_repayment_cases:
  "(0 < principal_amt \<and> 0 < days \<and> 0 \<le> repo_rate \<longrightarrow>
      calculate_repo_transaction principal_amt repo_rate days =
        Inr (principal_amt * (1 + repo_rate * days / 360))) \<and>
   (principal_amt \<le> 0 \<or> days \<le> 0 \<or> repo_rate < 0 \<longrightarrow>
      calculate_repo_transaction principal_amt repo_rate days = Inr 0)"
  by (auto simp: calculate_repo_transaction_def algebra_simps)

theorem repo_repayment_cases_witness:
  "calculate_repo_transaction 1000000 (35 / 1000) 30 = Inr (3008750 / 3) \<and>
   calculate_repo_transaction 0 (35 / 1000) 30 = Inr 0 \<and>
   calculate_repo_transaction 1000000 (35 / 1000) (- 1) = Inr 0 \<and>
   calculate_repo_transaction 1000000 (- 1 / 100) 30 = Inr 0"
  using repo_repayment_cases [of 1000000 30 "35 / 1000"]
        repo_repayment_cases [of 0 30 "35 / 1000"]
        repo_repayment_cases [of 1000000 "- 1" "35 / 1000"]
        repo_repayment_cases [of 1000000 30 "- 1 / 100"]
  by simp

text \<open>
  C10.  With a zero coupon amount the forward price equals the repo repayment on the same
  terms, whatever \<open>days_to_coupon\<close> is, for a positive dirty price, a non-negative repo
  rate and a positive number of days.
\<close>

theorem forward_zero_coupon_eq_repo:
  assumes "0 < dirty_price" and "0 \<le> repo_rate" and "0 < days"
  shows "calculate_forward_price dirty_price repo_rate days 0 days_to_coupon =
         calculate_repo_transaction dirty_price repo_rate days"
  using assms
  by (simp add: calculate_forward_price_def calculate_repo_transaction_def algebra_simps)

theorem forward_zero_coupon_eq_repo_witness:
  "calculate_forward_price 1000000 (35 / 1000) 30 0 10 =
     calculate_repo_transaction 1000000 (35 / 1000) 30 \<and>
   calculate_repo_transaction 1000000 (35 / 1000) 30 = Inr (3008750 / 3)"
proof -
  have "calculate_forward_price 1000000 (35 / 1000) 30 0 10 =
        calculate_repo_transaction 1000000 (35 / 1000) 30"
    by (rule forward_zero_coupon_eq_repo) simp_all
  moreover have "calculate_repo_transaction 1000000 (35 / 1000) 30 = Inr (3008750 / 3)"
    by (simp add: calculate_repo_transaction_def)
  ultimately show ?thesis by simp
qed

end
